theory Spec2Isabelle
  imports Main "HOL-Library.Sublist" "HOL-Library.Char_ord" "HOL-Library.List_Lexorder"
    "HOL-Library.Option_ord" "HOL-Library.Product_Lexorder"
begin

section \<open>Strings and the SQL text operators\<close>

text \<open>
  Go strings and SQLite TEXT values are byte sequences, modelled as \<^typ>\<open>string\<close>.
  The order on strings is the lexicographic order on bytes, which is SQLite's BINARY
  collation (the one the queries of the program use for comparisons and ORDER BY).
\<close>

definition lower_ascii :: "char \<Rightarrow> char" where
  \<comment> \<open>ASCII lower-casing: the letters A..Z get bit 5 set (that is, 32 added).\<close>
  "lower_ascii c = (if CHR ''A'' \<le> c \<and> c \<le> CHR ''Z''
     then (case c of Char b0 b1 b2 b3 b4 b5 b6 b7 \<Rightarrow> Char b0 b1 b2 b3 b4 True b6 b7) else c)"

definition sql_lower :: "string \<Rightarrow> string" where
  \<comment> \<open>SQL \<open>LOWER(x)\<close> on a non-NULL text.\<close>
  "sql_lower s = map lower_ascii s"

text \<open>
  The LIKE operator of SQLite, as the engine evaluates it. Both operands are read as
  NUL-terminated texts, one UTF-8 character at a time: a byte below \<open>0xC0\<close> is a
  character of its own, a byte from \<open>0xC0\<close> on starts a character that extends over the
  continuation bytes \<open>0x80..0xBF\<close> that follow it. Characters are compared by their code
  points (32-bit arithmetic; overlong forms, surrogates and \<open>0xFFFE\<close>, \<open>0xFFFF\<close> read
  as \<open>0xFFFD\<close>).
\<close>

definition cstring :: "string \<Rightarrow> string" where
  \<comment> \<open>The text up to its first NUL byte.\<close>
  "cstring s = takeWhile (\<lambda>c. c \<noteq> CHR 0x00) s"

definition utf8Trans1 :: "char \<Rightarrow> nat" where
  \<comment> \<open>The payload bits of a lead byte \<open>0xC0..0xFF\<close> (the table \<open>sqlite3Utf8Trans1\<close>).\<close>
  "utf8Trans1 b =
     (if b < CHR 0xE0 then of_char b mod 32
      else if b < CHR 0xF0 then of_char b mod 16
      else if b < CHR 0xF8 then of_char b mod 8
      else if b < CHR 0xFC then of_char b mod 4
      else if b < CHR 0xFE then of_char b mod 2
      else 0)"

fun utf8Cont :: "nat \<Rightarrow> string \<Rightarrow> nat \<times> string" where
  \<comment> \<open>The loop over the continuation bytes: \<open>c = (c << 6) + (0x3f & byte)\<close>.\<close>
  "utf8Cont c [] = (c, [])"
| "utf8Cont c (b # bs) =
     (if CHR 0x80 \<le> b \<and> b < CHR 0xC0
      then utf8Cont ((c * 64 + of_char b mod 64) mod 2 ^ 32) bs
      else (c, b # bs))"

function utf8Chars :: "string \<Rightarrow> nat list" where
  \<comment> \<open>The code points that \<open>sqlite3Utf8Read\<close> yields, one after the other.\<close>
  "utf8Chars [] = []"
| "utf8Chars (b # bs) =
     (if b < CHR 0xC0 then of_char b # utf8Chars bs
      else (let r = utf8Cont (utf8Trans1 b) bs; c = fst r
            in (if c < 0x80 \<or> c div 0x800 = 0x1B \<or> c div 2 = 0x7FFF then 0xFFFD else c)
                 # utf8Chars (snd r)))"
  by pat_completeness auto
termination
proof (relation "measure length")
  have len: "length (snd (utf8Cont c bs)) \<le> length bs" for c bs
    by (induction bs arbitrary: c) (auto intro: le_SucI)
  show "wf (measure length)" by simp
  show "(bs, b # bs) \<in> measure length" for b :: char and bs by simp
  show "(snd r, b # bs) \<in> measure length"
    if "r = utf8Cont (utf8Trans1 b) bs" for b bs r
    using len [of "utf8Trans1 b" bs] that by (simp add: le_imp_less_Suc)
qed

definition sqlite3Tolower :: "nat \<Rightarrow> nat" where
  \<comment> \<open>Lower-casing of a code point below \<open>0x80\<close>: only A..Z change.\<close>
  "sqlite3Tolower c = (if 0x41 \<le> c \<and> c \<le> 0x5A then c + 0x20 else c)"

fun patternCompare :: "nat list \<Rightarrow> nat list \<Rightarrow> bool" where
  \<comment> \<open>Pattern first: \<open>%\<close> (0x25) matches any run of characters, \<open>_\<close> (0x5F) any one
      character, every other character itself, ASCII letters in either case.\<close>
  "patternCompare [] s = (s = [])"
| "patternCompare (c # ps) [] = (c = 0x25 \<and> patternCompare ps [])"
| "patternCompare (c # ps) (c2 # cs) =
     (if c = 0x25 then patternCompare ps (c2 # cs) \<or> patternCompare (c # ps) cs
      else (c = c2 \<or> (c < 0x80 \<and> c2 < 0x80 \<and> sqlite3Tolower c = sqlite3Tolower c2)
              \<or> c = 0x5F)
           \<and> patternCompare ps cs)"

definition sql_like :: "string \<Rightarrow> string \<Rightarrow> bool" where
  \<comment> \<open>\<open>text LIKE pattern\<close> (pattern first). SQLite refuses a pattern of more than 50000
      bytes: the statement then fails at the first row it tests. \<open>QueryRow(...).Scan\<close>
      reports that as an error, and a \<open>rows.Next()\<close> loop just ends (the program never
      asks \<open>rows.Err()\<close>), so in every query of the program the effect is that of a
      pattern that matches no row.\<close>
  "sql_like pattern s =
     (length pattern \<le> 50000
      \<and> patternCompare (utf8Chars (cstring pattern)) (utf8Chars (cstring s)))"

fun contains :: "string \<Rightarrow> string \<Rightarrow> bool" where
  \<comment> \<open>Go's \<open>strings.Contains(s, substr)\<close>.\<close>
  "contains [] sub = (sub = [])"
| "contains (c # s) sub = (prefix sub (c # s) \<or> contains s sub)"

definition hasSuffix :: "string \<Rightarrow> string \<Rightarrow> bool" where
  \<comment> \<open>Go's \<open>strings.HasSuffix(s, suffix)\<close>.\<close>
  "hasSuffix s suf = (length suf \<le> length s \<and> drop (length s - length suf) s = suf)"

definition splitAtFirst :: "char \<Rightarrow> string \<Rightarrow> string" where
  \<comment> \<open>\<open>strings.Split(s, sep)[0]\<close> for a one-character separator.\<close>
  "splitAtFirst sep s = takeWhile (\<lambda>c. c \<noteq> sep) s"

definition wildcard_free :: "string \<Rightarrow> bool" where
  "wildcard_free q = (CHR ''%'' \<notin> set q \<and> CHR ''_'' \<notin> set q)"

section \<open>The store\<close>

text \<open>
  The two tables the program reads. Columns that the program scans into
  \<open>sql.NullString\<close> are optional; the others are scanned into plain Go values and are
  modelled as never NULL. The timestamp columns hold text and are read back as stored.
  The order of the lists is the order in which SQLite visits the rows of a table.
\<close>

record chat_row =
  c_jid :: string
  c_name :: "string option"
  c_last_message_time :: "string option"

record message_row =
  m_id :: string
  m_chat_jid :: string
  m_sender :: string
  m_content :: string
  m_timestamp :: string
  m_is_from_me :: bool
  m_media_type :: "string option"

record db =
  chats :: "chat_row list"
  messages :: "message_row list"

datatype error =
    ConnectionError
  | InvalidDate string string
  | MessageNotFound string
  | TimeParseError string
  | NoSuchColumn string string

text \<open>
  \<open>openDB()\<close> either fails or yields the database; its outcome is an input of every
  operation.
\<close>

type_synonym store = "error + db"

text \<open>
  Go's \<open>time\<close> package and the SQL driver's rendering of a \<open>time.Time\<close> parameter are not
  part of the program; they are parameters of the model. The type \<open>'t\<close> stands for
  \<open>time.Time\<close>.
\<close>

record 't timelib =
  parseTime :: "string \<Rightarrow> 't option"
  formatTime :: "'t \<Rightarrow> string"
  bindTime :: "'t \<Rightarrow> string"

record 't Message =
  Timestamp :: 't
  Sender :: string
  Content :: string
  IsFromMe :: bool
  ChatJID :: string
  ID :: string
  ChatName :: "string option"
  MediaType :: "string option"

record 't Chat =
  JID :: string
  Name :: "string option"
  LastMessageTime :: "'t option"
  LastMessage :: "string option"
  LastSender :: "string option"
  LastIsFromMe :: "bool option"

record Contact =
  PhoneNumber :: string
  ContactName :: "string option"
  ContactJID :: string

record 't MessageContext =
  Message :: "'t Message"
  Before :: "'t Message list"
  After :: "'t Message list"

section \<open>Sender resolver\<close>

definition queryRow :: "'r list \<Rightarrow> 'r option" where
  \<comment> \<open>\<open>db.QueryRow\<close>: the first row of the result, or none (\<open>sql.ErrNoRows\<close>).\<close>
  "queryRow rows = (case rows of [] \<Rightarrow> None | r # _ \<Rightarrow> Some r)"

definition scanName :: "chat_row option \<Rightarrow> string option" where
  \<comment> \<open>\<open>Scan(&name)\<close> into a Go string: fails on no row and on NULL.\<close>
  "scanName r = (case r of None \<Rightarrow> None | Some c \<Rightarrow> c_name c)"

definition phonePart :: "string \<Rightarrow> string" where
  "phonePart senderJID =
     (if contains senderJID ''@'' then splitAtFirst CHR ''@'' senderJID else senderJID)"

definition getSenderName :: "store \<Rightarrow> string \<Rightarrow> string" where
  "getSenderName st senderJID =
     (case st of
        Inl e \<Rightarrow> senderJID
      | Inr d \<Rightarrow>
         (let exact = scanName (queryRow [c \<leftarrow> chats d. c_jid c = senderJID])
          in if exact \<noteq> None \<and> the exact \<noteq> [] then the exact
             else
               (let partial = scanName (queryRow
                       [c \<leftarrow> chats d. sql_like (''%'' @ phonePart senderJID @ ''%'') (c_jid c)])
                in if partial \<noteq> None \<and> the partial \<noteq> [] then the partial
                   else senderJID)))"

section \<open>Message formatter\<close>

definition formatMessage :: "'t timelib \<Rightarrow> store \<Rightarrow> 't Message \<Rightarrow> bool \<Rightarrow> string" where
  "formatMessage lib st message showChatInfo =
     (let output =
            (case ChatName message of
               Some chatName \<Rightarrow>
                 if showChatInfo
                 then ''['' @ formatTime lib (Timestamp message) @ ''] Chat: '' @ chatName @ '' ''
                 else ''['' @ formatTime lib (Timestamp message) @ ''] ''
             | None \<Rightarrow> ''['' @ formatTime lib (Timestamp message) @ ''] '');
          contentPrefix =
            (case MediaType message of
               None \<Rightarrow> []
             | Some mediaType \<Rightarrow>
                 if mediaType \<noteq> []
                 then ''['' @ mediaType @ '' - Message ID: '' @ ID message @ '' - Chat JID: ''
                        @ ChatJID message @ ''] ''
                 else []);
          senderName =
            (if \<not> IsFromMe message then getSenderName st (Sender message) else ''Me'')
      in output @ ''From: '' @ senderName @ '': '' @ contentPrefix @ Content message
           @ [CHR 0x0A])"

definition formatMessagesList :: "'t timelib \<Rightarrow> store \<Rightarrow> 't Message list \<Rightarrow> bool \<Rightarrow> string" where
  "formatMessagesList lib st msgs showChatInfo =
     (if length msgs = 0 then ''No messages to display.''
      else foldl (\<lambda>output message. output @ formatMessage lib st message showChatInfo) [] msgs)"

section \<open>SQL result sets\<close>

definition order_asc :: "('r \<Rightarrow> 'k::linorder) \<Rightarrow> 'r list \<Rightarrow> 'r list" where
  \<comment> \<open>\<open>ORDER BY key ASC\<close>; rows with equal keys keep their order.\<close>
  "order_asc key rows = sort_key key rows"

definition order_desc :: "('r \<Rightarrow> 'k::linorder) \<Rightarrow> 'r list \<Rightarrow> 'r list" where
  \<comment> \<open>\<open>ORDER BY key DESC\<close>; rows with equal keys keep their order.\<close>
  "order_desc key rows = rev (sort_key key (rev rows))"

definition sql_limit :: "int \<Rightarrow> 'r list \<Rightarrow> 'r list" where
  \<comment> \<open>\<open>LIMIT n\<close>: a negative \<open>n\<close> is no limit.\<close>
  "sql_limit n rows = (if n < 0 then rows else take (nat n) rows)"

definition sql_limit_offset :: "int \<Rightarrow> int \<Rightarrow> 'r list \<Rightarrow> 'r list" where
  \<comment> \<open>\<open>LIMIT n OFFSET k\<close>: a negative \<open>k\<close> skips nothing.\<close>
  "sql_limit_offset n k rows = sql_limit n (drop (nat k) rows)"

definition wrap64 :: "int \<Rightarrow> int" where
  \<comment> \<open>The value of a Go \<open>int\<close> (64 bits, two's complement) after an arithmetic operation.\<close>
  "wrap64 n = (n + 2 ^ 63) mod 2 ^ 64 - 2 ^ 63"

definition sql_resolve :: "string list \<Rightarrow> (string \<times> string) list \<Rightarrow> error + unit" where
  \<comment> \<open>Preparing a statement: every column \<open>t.c\<close> of the select list must name a table of the
      FROM clause; the first one that does not is reported.\<close>
  "sql_resolve tables cols =
     (case [col \<leftarrow> cols. fst col \<notin> set tables] of
        [] \<Rightarrow> Inr ()
      | (t, c) # _ \<Rightarrow> Inl (NoSuchColumn t c))"

type_synonym msg_row = "message_row \<times> chat_row"

definition messages_join_chats :: "db \<Rightarrow> msg_row list" where
  \<comment> \<open>\<open>FROM messages JOIN chats ON messages.chat_jid = chats.jid\<close>\<close>
  "messages_join_chats d = [(m, c). m \<leftarrow> messages d, c \<leftarrow> chats d, m_chat_jid m = c_jid c]"

definition row_timestamp :: "msg_row \<Rightarrow> string" where
  "row_timestamp r = m_timestamp (fst r)"

definition scanMessage :: "'t timelib \<Rightarrow> msg_row \<Rightarrow> error + 't Message" where
  \<comment> \<open>\<open>Scan\<close> of one row and \<open>time.Parse(time.RFC3339, timestampStr)\<close>.\<close>
  "scanMessage lib r =
     (case r of (m, c) \<Rightarrow>
        (case parseTime lib (m_timestamp m) of
           None \<Rightarrow> Inl (TimeParseError (m_timestamp m))
         | Some t \<Rightarrow>
             Inr \<lparr>Timestamp = t, Sender = m_sender m, Content = m_content m,
                  IsFromMe = m_is_from_me m, ChatJID = c_jid c, ID = m_id m,
                  ChatName = c_name c, MediaType = m_media_type m\<rparr>))"

fun scanRows :: "('r \<Rightarrow> error + 'a) \<Rightarrow> 'a list \<Rightarrow> 'r list \<Rightarrow> error + 'a list" where
  \<comment> \<open>The loop \<open>for rows.Next() { ...; if err != nil { return err }; acc = append(acc, x) }\<close>.\<close>
  "scanRows scan acc [] = Inr acc"
| "scanRows scan acc (r # rs) =
     (case scan r of Inl e \<Rightarrow> Inl e | Inr x \<Rightarrow> scanRows scan (acc @ [x]) rs)"

section \<open>Context window assembler\<close>

definition getMessageContext ::
  "'t timelib \<Rightarrow> store \<Rightarrow> string \<Rightarrow> int \<Rightarrow> int \<Rightarrow> error + 't MessageContext" where
  "getMessageContext lib st messageID before after =
     (case st of
        Inl e \<Rightarrow> Inl e
      | Inr d \<Rightarrow>
         (case queryRow [r \<leftarrow> messages_join_chats d. m_id (fst r) = messageID] of
            None \<Rightarrow> Inl (MessageNotFound messageID)
          | Some target \<Rightarrow>
             (case scanMessage lib target of
                Inl e \<Rightarrow> Inl e
              | Inr msg \<Rightarrow>
                 (case scanRows (scanMessage lib) []
                         (sql_limit before (order_desc row_timestamp
                            [r \<leftarrow> messages_join_chats d.
                               m_chat_jid (fst r) = m_chat_jid (fst target) \<and>
                               row_timestamp r < row_timestamp target])) of
                    Inl e \<Rightarrow> Inl e
                  | Inr beforeMessages \<Rightarrow>
                     (case scanRows (scanMessage lib) []
                             (sql_limit after (order_asc row_timestamp
                                [r \<leftarrow> messages_join_chats d.
                                   m_chat_jid (fst r) = m_chat_jid (fst target) \<and>
                                   row_timestamp r > row_timestamp target])) of
                        Inl e \<Rightarrow> Inl e
                      | Inr afterMessages \<Rightarrow>
                          Inr \<lparr>Message = msg, Before = beforeMessages,
                               After = afterMessages\<rparr>)))))"

section \<open>Message query builder\<close>

definition timeBound ::
  "'t timelib \<Rightarrow> string \<Rightarrow> (string \<Rightarrow> string \<Rightarrow> bool) \<Rightarrow> string option
     \<Rightarrow> error + (msg_row \<Rightarrow> bool) list" where
  \<comment> \<open>The clause for \<open>after\<close> or \<open>before\<close>: the bound is parsed and the driver binds it.\<close>
  "timeBound lib which cmp bound =
     (case bound of
        None \<Rightarrow> Inr []
      | Some s \<Rightarrow>
         (case parseTime lib s of
            None \<Rightarrow> Inl (InvalidDate which s)
          | Some t \<Rightarrow> Inr [\<lambda>r. cmp (row_timestamp r) (bindTime lib t)]))"

definition whereClauses ::
  "'t timelib \<Rightarrow> string option \<Rightarrow> string option \<Rightarrow> string option \<Rightarrow> string option
     \<Rightarrow> string option \<Rightarrow> error + (msg_row \<Rightarrow> bool) list" where
  "whereClauses lib after before senderPhoneNumber chatJID query =
     (case timeBound lib ''after'' (\<lambda>x y. x > y) after of
        Inl e \<Rightarrow> Inl e
      | Inr w1 \<Rightarrow>
         (case timeBound lib ''before'' (\<lambda>x y. x < y) before of
            Inl e \<Rightarrow> Inl e
          | Inr w2 \<Rightarrow>
              Inr (w1 @ w2
                @ (case senderPhoneNumber of None \<Rightarrow> []
                   | Some s \<Rightarrow> [\<lambda>r. m_sender (fst r) = s])
                @ (case chatJID of None \<Rightarrow> []
                   | Some j \<Rightarrow> [\<lambda>r. m_chat_jid (fst r) = j])
                @ (case query of None \<Rightarrow> []
                   | Some q \<Rightarrow>
                       [\<lambda>r. sql_like (sql_lower (''%'' @ q @ ''%''))
                              (sql_lower (m_content (fst r)))]))))"

definition queryMessages :: "db \<Rightarrow> (msg_row \<Rightarrow> bool) list \<Rightarrow> int \<Rightarrow> int \<Rightarrow> msg_row list" where
  \<comment> \<open>\<open>... WHERE w1 AND ... AND wn ORDER BY messages.timestamp DESC LIMIT ? OFFSET ?\<close>\<close>
  "queryMessages d ws limit offset =
     sql_limit_offset limit offset
       (order_desc row_timestamp [r \<leftarrow> messages_join_chats d. list_all (\<lambda>w. w r) ws])"

definition listMessagesPage ::
  "'t timelib \<Rightarrow> store \<Rightarrow> string option \<Rightarrow> string option \<Rightarrow> string option \<Rightarrow> string option
     \<Rightarrow> string option \<Rightarrow> int \<Rightarrow> int \<Rightarrow> error + 't Message list" where
  \<comment> \<open>\<open>listMessages\<close> up to the end of its row loop: the slice \<open>messages\<close>.\<close>
  "listMessagesPage lib st after before senderPhoneNumber chatJID query limit page =
     (case st of
        Inl e \<Rightarrow> Inl e
      | Inr d \<Rightarrow>
         (case whereClauses lib after before senderPhoneNumber chatJID query of
            Inl e \<Rightarrow> Inl e
          | Inr ws \<Rightarrow>
              scanRows (scanMessage lib) []
                (queryMessages d ws limit (wrap64 (page * limit)))))"

fun addContext ::
  "'t timelib \<Rightarrow> store \<Rightarrow> int \<Rightarrow> int \<Rightarrow> 't Message list \<Rightarrow> 't Message list \<Rightarrow> 't Message list" where
  \<comment> \<open>The loop over the matched messages; a failing context lookup is skipped.\<close>
  "addContext lib st contextBefore contextAfter acc [] = acc"
| "addContext lib st contextBefore contextAfter acc (msg # rest) =
     (case getMessageContext lib st (ID msg) contextBefore contextAfter of
        Inl e \<Rightarrow> addContext lib st contextBefore contextAfter acc rest
      | Inr ctx \<Rightarrow>
          addContext lib st contextBefore contextAfter
            (acc @ Before ctx @ [Message ctx] @ After ctx) rest)"

definition listMessagesResult ::
  "'t timelib \<Rightarrow> store \<Rightarrow> string option \<Rightarrow> string option \<Rightarrow> string option \<Rightarrow> string option
     \<Rightarrow> string option \<Rightarrow> int \<Rightarrow> int \<Rightarrow> bool \<Rightarrow> int \<Rightarrow> int \<Rightarrow> error + 't Message list" where
  \<comment> \<open>The messages that \<open>listMessages\<close> hands to \<open>formatMessagesList\<close>.\<close>
  "listMessagesResult lib st after before senderPhoneNumber chatJID query limit page
       includeContext contextBefore contextAfter =
     (case listMessagesPage lib st after before senderPhoneNumber chatJID query limit page of
        Inl e \<Rightarrow> Inl e
      | Inr msgs \<Rightarrow>
          if includeContext \<and> length msgs > 0
          then Inr (addContext lib st contextBefore contextAfter [] msgs)
          else Inr msgs)"

definition listMessages ::
  "'t timelib \<Rightarrow> store \<Rightarrow> string option \<Rightarrow> string option \<Rightarrow> string option \<Rightarrow> string option
     \<Rightarrow> string option \<Rightarrow> int \<Rightarrow> int \<Rightarrow> bool \<Rightarrow> int \<Rightarrow> int \<Rightarrow> error + string" where
  "listMessages lib st after before senderPhoneNumber chatJID query limit page
       includeContext contextBefore contextAfter =
     (case listMessagesResult lib st after before senderPhoneNumber chatJID query limit page
             includeContext contextBefore contextAfter of
        Inl e \<Rightarrow> Inl e
      | Inr msgs \<Rightarrow> Inr (formatMessagesList lib st msgs True))"

definition getLastInteraction :: "'t timelib \<Rightarrow> store \<Rightarrow> string \<Rightarrow> error + string" where
  "getLastInteraction lib st jid =
     (case st of
        Inl e \<Rightarrow> Inl e
      | Inr d \<Rightarrow>
         (case queryRow (sql_limit 1 (order_desc row_timestamp
                  [r \<leftarrow> messages_join_chats d. m_sender (fst r) = jid \<or> c_jid (snd r) = jid])) of
            None \<Rightarrow> Inr []
          | Some r \<Rightarrow>
             (case scanMessage lib r of
                Inl e \<Rightarrow> Inl e
              | Inr msg \<Rightarrow> Inr (formatMessage lib st msg False))))"

section \<open>Chat aggregator\<close>

type_synonym chat_sel =
  "string \<times> string option \<times> string option \<times> string option \<times> string option \<times> bool option"

definition chatColumns :: "string \<Rightarrow> string \<Rightarrow> (string \<times> string) list" where
  \<comment> \<open>The select list of the chat queries, for the table names (or aliases) \<open>c\<close> and \<open>m\<close>.\<close>
  "chatColumns c m =
     [(c, ''jid''), (c, ''name''), (c, ''last_message_time''),
      (m, ''content''), (m, ''sender''), (m, ''is_from_me'')]"

definition selectChat :: "chat_row \<times> message_row option \<Rightarrow> chat_sel" where
  "selectChat r =
     (case r of (c, mo) \<Rightarrow>
        (c_jid c, c_name c, c_last_message_time c,
         map_option m_content mo, map_option m_sender mo, map_option m_is_from_me mo))"

definition chats_only :: "db \<Rightarrow> (chat_row \<times> message_row option) list" where
  \<comment> \<open>\<open>FROM chats\<close>\<close>
  "chats_only d = map (\<lambda>c. (c, None)) (chats d)"

definition chats_left_join_last :: "db \<Rightarrow> (chat_row \<times> message_row option) list" where
  \<comment> \<open>\<open>FROM chats LEFT JOIN messages ON chats.jid = messages.chat_jid
      AND chats.last_message_time = messages.timestamp\<close>\<close>
  "chats_left_join_last d =
     concat (map (\<lambda>c.
       (case [m \<leftarrow> messages d. c_jid c = m_chat_jid m \<and>
                                c_last_message_time c = Some (m_timestamp m)] of
          [] \<Rightarrow> [(c, None)]
        | m # ms \<Rightarrow> map (\<lambda>x. (c, Some x)) (m # ms))) (chats d))"

definition chats_join_messages :: "db \<Rightarrow> (chat_row \<times> message_row option) list" where
  \<comment> \<open>\<open>FROM chats c JOIN messages m ON c.jid = m.chat_jid\<close>\<close>
  "chats_join_messages d = [(c, Some m). c \<leftarrow> chats d, m \<leftarrow> messages d, c_jid c = m_chat_jid m]"

definition scanChat :: "'t timelib \<Rightarrow> chat_sel \<Rightarrow> 't Chat" where
  \<comment> \<open>\<open>Scan\<close> of one row into a \<open>Chat\<close>; a last-message time that does not parse is left nil.\<close>
  "scanChat lib r =
     (case r of (jid, name, lastMessageTimeStr, lastMessage, lastSender, lastIsFromMe) \<Rightarrow>
        \<lparr>JID = jid, Name = name,
         LastMessageTime =
           (case lastMessageTimeStr of None \<Rightarrow> None | Some s \<Rightarrow> parseTime lib s),
         LastMessage = lastMessage, LastSender = lastSender,
         LastIsFromMe = lastIsFromMe\<rparr>)"

definition IsGroup :: "'t Chat \<Rightarrow> bool" where
  "IsGroup c = hasSuffix (JID c) ''@g.us''"

definition chatMatches :: "string \<Rightarrow> chat_row \<Rightarrow> bool" where
  \<comment> \<open>\<open>(LOWER(chats.name) LIKE LOWER(?) OR chats.jid LIKE ?)\<close> with both parameters
      \<open>"%" + query + "%"\<close>; a NULL name makes the first disjunct NULL.\<close>
  "chatMatches q c =
     ((case c_name c of None \<Rightarrow> False
       | Some n \<Rightarrow> sql_like (sql_lower (''%'' @ q @ ''%'')) (sql_lower n))
      \<or> sql_like (''%'' @ q @ ''%'') (c_jid c))"

definition listChats ::
  "'t timelib \<Rightarrow> store \<Rightarrow> string option \<Rightarrow> int \<Rightarrow> int \<Rightarrow> bool \<Rightarrow> string
     \<Rightarrow> error + 't Chat list" where
  "listChats lib st query limit page includeLastMessage sortBy =
     (case st of
        Inl e \<Rightarrow> Inl e
      | Inr d \<Rightarrow>
         (let tables = [''chats''] @ (if includeLastMessage then [''messages''] else []);
              source = (if includeLastMessage then chats_left_join_last d else chats_only d);
              matching = (case query of None \<Rightarrow> source
                          | Some q \<Rightarrow> [r \<leftarrow> source. chatMatches q (fst r)]);
              ordered = (if sortBy = ''name'' then order_asc (\<lambda>r. c_name (fst r)) matching
                         else order_desc (\<lambda>r. c_last_message_time (fst r)) matching)
          in case sql_resolve tables (chatColumns ''chats'' ''messages'') of
               Inl e \<Rightarrow> Inl e
             | Inr _ \<Rightarrow>
                 Inr (map (\<lambda>r. scanChat lib (selectChat r))
                        (sql_limit_offset limit (wrap64 (page * limit)) ordered))))"

definition getChat :: "'t timelib \<Rightarrow> store \<Rightarrow> string \<Rightarrow> bool \<Rightarrow> error + 't Chat option" where
  "getChat lib st chatJID includeLastMessage =
     (case st of
        Inl e \<Rightarrow> Inl e
      | Inr d \<Rightarrow>
         (let tables = [''c''] @ (if includeLastMessage then [''m''] else []);
              source = (if includeLastMessage then chats_left_join_last d else chats_only d)
          in case sql_resolve tables (chatColumns ''c'' ''m'') of
               Inl e \<Rightarrow> Inl e
             | Inr _ \<Rightarrow>
                 (case queryRow [r \<leftarrow> source. c_jid (fst r) = chatJID] of
                    None \<Rightarrow> Inr None
                  | Some r \<Rightarrow> Inr (Some (scanChat lib (selectChat r))))))"

definition getContactChats ::
  "'t timelib \<Rightarrow> store \<Rightarrow> string \<Rightarrow> int \<Rightarrow> int \<Rightarrow> error + 't Chat list" where
  \<comment> \<open>\<open>SELECT DISTINCT\<close> removes rows that agree on all six selected columns.\<close>
  "getContactChats lib st jid limit page =
     (case st of
        Inl e \<Rightarrow> Inl e
      | Inr d \<Rightarrow>
          Inr (map (scanChat lib)
                 (sql_limit_offset limit (wrap64 (page * limit))
                    (order_desc (\<lambda>r. fst (snd (snd r)))
                       (remdups (map selectChat
                          [r \<leftarrow> chats_join_messages d.
                             map_option m_sender (snd r) = Some jid \<or> c_jid (fst r) = jid]))))))"

section \<open>Contact search\<close>

definition contactMatches :: "string \<Rightarrow> chat_row \<Rightarrow> bool" where
  \<comment> \<open>\<open>(LOWER(name) LIKE LOWER(?) OR LOWER(jid) LIKE LOWER(?)) AND jid NOT LIKE '%@g.us'\<close>
      with both parameters \<open>"%" + query + "%"\<close>.\<close>
  "contactMatches query c =
     (((case c_name c of None \<Rightarrow> False
        | Some n \<Rightarrow> sql_like (sql_lower (''%'' @ query @ ''%'')) (sql_lower n))
       \<or> sql_like (sql_lower (''%'' @ query @ ''%'')) (sql_lower (c_jid c)))
      \<and> \<not> sql_like ''%@g.us'' (c_jid c))"

definition scanContact :: "string \<times> string option \<Rightarrow> Contact" where
  "scanContact r =
     (case r of (jid, name) \<Rightarrow>
        \<lparr>PhoneNumber = splitAtFirst CHR ''@'' jid, ContactName = name, ContactJID = jid\<rparr>)"

definition searchContacts :: "store \<Rightarrow> string \<Rightarrow> error + Contact list" where
  \<comment> \<open>\<open>SELECT DISTINCT jid, name ... ORDER BY name, jid LIMIT 50\<close>\<close>
  "searchContacts st query =
     (case st of
        Inl e \<Rightarrow> Inl e
      | Inr d \<Rightarrow>
          Inr (map scanContact
                 (sql_limit 50
                    (order_asc (\<lambda>r. (snd r, fst r))
                       (remdups [(c_jid c, c_name c). c \<leftarrow> chats d, contactMatches query c])))))"

section \<open>Auxiliary predicates\<close>

definition chats_exist :: "db \<Rightarrow> bool" where
  \<comment> \<open>The invariant of the data model: every message references an existing chat.\<close>
  "chats_exist d = list_all (\<lambda>m. m_chat_jid m \<in> set (map c_jid (chats d))) (messages d)"

definition unnamed :: "chat_row \<Rightarrow> bool" where
  \<comment> \<open>The chat has no usable display name: NULL or the empty text.\<close>
  "unnamed c = (c_name c = None \<or> c_name c = Some [])"

section \<open>A concrete time library and example stores\<close>

text \<open>
  To run the model on examples, the time parameters are instantiated with a fragment of
  what Go provides: UTC timestamps at second resolution, written
  \<open>YYYY-MM-DDTHH:MM:SSZ\<close> (a fragment of RFC 3339); any other text is rejected.
  A time is the tuple (year, month, day, hour, minute, second), ordered lexicographically,
  which is the chronological order. The layout \<open>2006-01-02 15:04:05\<close> renders it, and
  the driver binds it as that rendering followed by the zone \<open>+00:00\<close>.
\<close>

type_synonym utc = "nat \<times> nat \<times> nat \<times> nat \<times> nat \<times> nat"

fun digitsVal :: "nat \<Rightarrow> string \<Rightarrow> nat option" where
  "digitsVal acc [] = Some acc"
| "digitsVal acc (c # cs) =
     (if CHR ''0'' \<le> c \<and> c \<le> CHR ''9'' then digitsVal (10 * acc + (of_char c - 48)) cs
      else None)"

definition parseUTC :: "string \<Rightarrow> utc option" where
  "parseUTC s =
     (if length s = 20 \<and> s ! 4 = CHR ''-'' \<and> s ! 7 = CHR ''-'' \<and> s ! 10 = CHR ''T''
         \<and> s ! 13 = CHR '':'' \<and> s ! 16 = CHR '':'' \<and> s ! 19 = CHR ''Z''
      then (case (digitsVal 0 (take 4 s), digitsVal 0 (take 2 (drop 5 s)),
                  digitsVal 0 (take 2 (drop 8 s)), digitsVal 0 (take 2 (drop 11 s)),
                  digitsVal 0 (take 2 (drop 14 s)), digitsVal 0 (take 2 (drop 17 s))) of
              (Some y, Some mo, Some d, Some h, Some mi, Some se) \<Rightarrow>
                if 1 \<le> mo \<and> mo \<le> 12 \<and> 1 \<le> d \<and> d \<le> 31 \<and> h < 24 \<and> mi < 60 \<and> se < 60
                then Some (y, mo, d, h, mi, se) else None
            | _ \<Rightarrow> None)
      else None)"

definition pad2 :: "nat \<Rightarrow> string" where
  "pad2 n = [''0123456789'' ! (n div 10 mod 10), ''0123456789'' ! (n mod 10)]"

definition formatUTC :: "utc \<Rightarrow> string" where
  "formatUTC t =
     (case t of (y, mo, d, h, mi, se) \<Rightarrow>
        pad2 (y div 100) @ pad2 y @ ''-'' @ pad2 mo @ ''-'' @ pad2 d @ '' ''
          @ pad2 h @ '':'' @ pad2 mi @ '':'' @ pad2 se)"

definition utcLib :: "utc timelib" where
  "utcLib = \<lparr>parseTime = parseUTC, formatTime = formatUTC,
             bindTime = (\<lambda>t. formatUTC t @ ''+00:00'')\<rparr>"

definition aliceChat :: chat_row where
  "aliceChat = \<lparr>c_jid = ''111@s.whatsapp.net'', c_name = Some ''Alice'',
                c_last_message_time = Some ''2024-01-01T10:00:03Z''\<rparr>"

definition bobChat :: chat_row where
  "bobChat = \<lparr>c_jid = ''123@s.whatsapp.net'', c_name = Some ''Bob'',
              c_last_message_time = None\<rparr>"

definition aliceMsg :: "string \<Rightarrow> string \<Rightarrow> string \<Rightarrow> message_row" where
  \<comment> \<open>A message row of Alice's chat, sent by Alice.\<close>
  "aliceMsg i ts txt = \<lparr>m_id = i, m_chat_jid = ''111@s.whatsapp.net'',
     m_sender = ''111@s.whatsapp.net'', m_content = txt, m_timestamp = ts,
     m_is_from_me = False, m_media_type = None\<rparr>"

definition aliceMessage :: "string \<Rightarrow> utc \<Rightarrow> string \<Rightarrow> utc Message" where
  \<comment> \<open>The \<open>Message\<close> that such a row is scanned to.\<close>
  "aliceMessage i t txt = \<lparr>Timestamp = t, Sender = ''111@s.whatsapp.net'', Content = txt,
     IsFromMe = False, ChatJID = ''111@s.whatsapp.net'', ID = i, ChatName = Some ''Alice'',
     MediaType = None\<rparr>"

definition aliceView :: "string \<Rightarrow> utc Chat" where
  \<comment> \<open>Alice's chat as a \<open>Chat\<close> whose last-message fields come from her message \<open>txt\<close>.\<close>
  "aliceView txt = \<lparr>JID = ''111@s.whatsapp.net'', Name = Some ''Alice'',
     LastMessageTime = Some (2024, 1, 1, 10, 0, 3), LastMessage = Some txt,
     LastSender = Some ''111@s.whatsapp.net'', LastIsFromMe = Some False\<rparr>"

definition threeStore :: db where
  \<comment> \<open>One chat with three messages, one second apart.\<close>
  "threeStore = \<lparr>chats = [aliceChat],
     messages = [aliceMsg ''A1'' ''2024-01-01T10:00:01Z'' ''one'',
                 aliceMsg ''A2'' ''2024-01-01T10:00:02Z'' ''two'',
                 aliceMsg ''A3'' ''2024-01-01T10:00:03Z'' ''three'']\<rparr>"

definition resolverStore :: db where
  "resolverStore = \<lparr>chats = [bobChat], messages = []\<rparr>"

definition chatTextMessage :: "utc Message" where
  \<comment> \<open>A message of the user whose text starts with the word "Chat:".\<close>
  "chatTextMessage = \<lparr>Timestamp = (2024, 1, 1, 10, 0, 5), Sender = ''123@s.whatsapp.net'',
     Content = ''Chat: hi'', IsFromMe = True, ChatJID = ''123@s.whatsapp.net'', ID = ''B1'',
     ChatName = None, MediaType = None\<rparr>"

section \<open>Lemmas about strings and SQL operators\<close>

lemma contains_iff_sublist: "contains s p \<longleftrightarrow> sublist p s"
  by (induction s) (simp_all add: sublist_Cons_right)

lemma hasSuffix_iff_suffix: "hasSuffix s suf \<longleftrightarrow> suffix suf s"
  unfolding hasSuffix_def
proof
  assume "length suf \<le> length s \<and> drop (length s - length suf) s = suf"
  then show "suffix suf s" by (metis suffix_drop)
next
  assume "suffix suf s"
  then obtain u where "s = u @ suf" by (auto simp: suffix_def)
  then show "length suf \<le> length s \<and> drop (length s - length suf) s = suf" by simp
qed

lemma prefix_Cons_notin: "c \<notin> set p \<Longrightarrow> prefix p (c # ys) \<longleftrightarrow> p = []"
  by (cases p) auto

text \<open>A character that does not occur in the pattern separates the search.\<close>

lemma contains_sep:
  assumes "c \<notin> set p"
  shows "contains (xs @ c # ys) p \<longleftrightarrow> contains xs p \<or> contains ys p"
proof -
  have "sublist p (c # ys) \<longleftrightarrow> sublist p ys"
    using assms by (auto simp: sublist_Cons_right prefix_Cons_notin)
  moreover have "sublist p xs"
    if "p = p1 @ p2" "suffix p1 xs" "prefix p2 (c # ys)" for p1 p2
  proof -
    from that(1) assms have "c \<notin> set p2" by simp
    with that(3) have "p2 = []" by (simp add: prefix_Cons_notin)
    with that(1,2) show ?thesis by (simp add: suffix_imp_sublist)
  qed
  ultimately show ?thesis
    unfolding contains_iff_sublist sublist_append by blast
qed

lemma contains_sep2:
  assumes "c \<notin> set p"
  shows "contains (xs @ a # c # ys) p \<longleftrightarrow> contains (xs @ [a]) p \<or> contains ys p"
  using contains_sep [OF assms, of "xs @ [a]" ys] by simp

lemma contains_colon_Chat:
  "contains (s @ '':'') ''Chat:'' \<longleftrightarrow> contains s ''Chat:'' \<or> hasSuffix s ''Chat''"
proof -
  have "sublist ''Chat:'' (s @ '':'') \<longleftrightarrow> sublist ''Chat:'' s \<or> suffix ''Chat'' s"
  proof
    assume "sublist ''Chat:'' (s @ '':'')"
    then consider "sublist ''Chat:'' s" | "sublist ''Chat:'' '':''"
      | p1 p2 where "''Chat:'' = p1 @ p2" "suffix p1 s" "prefix p2 '':''"
      unfolding sublist_append by blast
    then show "sublist ''Chat:'' s \<or> suffix ''Chat'' s"
    proof cases
      case 1 then show ?thesis by simp
    next
      case 2 then show ?thesis by (simp add: sublist_Cons_right)
    next
      case 3
      from 3(3) have "p2 = [] \<or> p2 = '':''" by (cases p2) auto
      with 3(1,2) show ?thesis by (auto simp: suffix_imp_sublist)
    qed
  next
    assume "sublist ''Chat:'' s \<or> suffix ''Chat'' s"
    then show "sublist ''Chat:'' (s @ '':'')"
    proof
      assume "sublist ''Chat:'' s" then show ?thesis by (simp add: sublist_append)
    next
      assume "suffix ''Chat'' s"
      then obtain u where "s = u @ ''Chat''" by (auto simp: suffix_def)
      then have "s @ '':'' = u @ ''Chat:'' @ []" by simp
      then show ?thesis unfolding sublist_def by blast
    qed
  qed
  then show ?thesis by (simp add: contains_iff_sublist hasSuffix_iff_suffix)
qed

lemma lower_ascii_idem [simp]: "lower_ascii (lower_ascii c) = lower_ascii c"
  by (cases c) (auto simp: lower_ascii_def less_eq_char_def)

lemma sql_lower_idem [simp]: "sql_lower (sql_lower s) = sql_lower s"
  by (simp add: sql_lower_def)

lemma sql_lower_append [simp]: "sql_lower (xs @ ys) = sql_lower xs @ sql_lower ys"
  by (simp add: sql_lower_def)

lemma sql_lower_simps [simp]:
  "sql_lower [] = []" "sql_lower (c # cs) = lower_ascii c # sql_lower cs"
  by (simp_all add: sql_lower_def)

section \<open>Lemmas about row access\<close>

lemma queryRow_simps [simp]: "queryRow [] = None" "queryRow (r # rs) = Some r"
  by (simp_all add: queryRow_def)

lemma queryRow_filter_Some:
  "queryRow (filter P xs) = Some x \<Longrightarrow> x \<in> set xs \<and> P x"
proof -
  assume "queryRow (filter P xs) = Some x"
  then obtain rest where "filter P xs = x # rest"
    by (cases "filter P xs") simp_all
  then have "x \<in> set (filter P xs)" by simp
  then show ?thesis by simp
qed

lemma scanName_queryRow_filter:
  assumes "\<forall>c \<in> set xs. P c \<longrightarrow> c_name c = None \<or> c_name c = Some []"
  shows "scanName (queryRow (filter P xs)) = None \<or> the (scanName (queryRow (filter P xs))) = []"
proof (cases "queryRow (filter P xs)")
  case None then show ?thesis by (simp add: scanName_def)
next
  case (Some c)
  then have "c \<in> set xs \<and> P c" by (rule queryRow_filter_Some)
  with assms have "c_name c = None \<or> c_name c = Some []" by blast
  with Some show ?thesis by (auto simp: scanName_def)
qed

lemma set_messages_join_chats:
  "set (messages_join_chats d) =
     {(m, c). m \<in> set (messages d) \<and> c \<in> set (chats d) \<and> m_chat_jid m = c_jid c}"
  by (auto simp: messages_join_chats_def)

lemma scanRows_error:
  "scanRows (scanMessage lib) acc rs = Inl e \<Longrightarrow> \<exists>s. e = TimeParseError s"
  by (induction rs arbitrary: acc)
     (auto simp: scanMessage_def split: sum.splits prod.splits option.splits)

lemma getMessageContext_not_found_join:
  "getMessageContext lib (Inr d) messageID b a = Inl (MessageNotFound messageID)
     \<longleftrightarrow> [r \<leftarrow> messages_join_chats d. m_id (fst r) = messageID] = []"
  unfolding getMessageContext_def
  by (cases "[r \<leftarrow> messages_join_chats d. m_id (fst r) = messageID]")
     (auto split: sum.split dest: scanRows_error simp: scanMessage_def
           split: option.splits prod.splits)

lemmas example_defs = utcLib_def parseUTC_def formatUTC_def pad2_def aliceChat_def bobChat_def
  aliceMsg_def aliceMessage_def aliceView_def threeStore_def resolverStore_def chatTextMessage_def

lemmas model_defs = getMessageContext_def messages_join_chats_def scanMessage_def
  sql_limit_def order_desc_def order_asc_def row_timestamp_def sql_limit_offset_def wrap64_def
  listMessagesPage_def listMessagesResult_def listMessages_def queryMessages_def
  whereClauses_def timeBound_def formatMessagesList_def formatMessage_def getSenderName_def
  scanName_def phonePart_def splitAtFirst_def lower_ascii_def

lemmas like_defs = sql_like_def cstring_def sqlite3Tolower_def utf8Trans1_def

section \<open>The claims\<close>

subsection \<open>C1: chat lookups without the last message\<close>

text \<open>
  C1 says that \<open>getChat\<close> and \<open>listChats\<close> work for both values of
  \<open>includeLastMessage\<close>. The program builds the query text conditionally: the select list
  always names the last-message columns of the messages table, but the join that brings
  that table into scope is added only when \<open>includeLastMessage\<close> is true. With
  \<open>includeLastMessage = false\<close> the statement cannot be prepared, so on every healthy
  store, for every argument, both operations return the store's error instead of a chat,
  an absent chat or a list.
\<close>

theorem chat_queries_fail_without_last_message:
  "getChat lib (Inr d) chatJID False = Inl (NoSuchColumn ''m'' ''content'') \<and>
   listChats lib (Inr d) query limit page False sortBy
     = Inl (NoSuchColumn ''messages'' ''content'')"
  by (simp add: getChat_def listChats_def sql_resolve_def chatColumns_def Let_def)

text \<open>With the join, the same calls do return a result.\<close>

lemma chat_queries_with_last_message:
  "(\<exists>r. getChat lib (Inr d) chatJID True = Inr r) \<and>
   (\<exists>r. listChats lib (Inr d) query limit page True sortBy = Inr r)"
  by (simp add: getChat_def listChats_def sql_resolve_def chatColumns_def Let_def
        split: option.split)

subsection \<open>C6: the not-found error of the context lookup\<close>

text \<open>
  C6: on a healthy store, \<open>getMessageContext\<close> fails with the not-found error exactly
  when the message identifier does not resolve, that is, when no message row with that
  identifier joins a chat. When every message references an existing chat (the invariant
  of the data model), this is exactly when no stored message has the identifier. Any other
  failure is a timestamp that does not parse, and an unknown identifier never yields a
  result.
\<close>

theorem getMessageContext_not_found_iff:
  "(getMessageContext lib (Inr d) messageID b a = Inl (MessageNotFound messageID)
      \<longleftrightarrow> \<not> (\<exists>m \<in> set (messages d). \<exists>c \<in> set (chats d).
                m_id m = messageID \<and> m_chat_jid m = c_jid c))
   \<and> (chats_exist d \<longrightarrow>
        (getMessageContext lib (Inr d) messageID b a = Inl (MessageNotFound messageID)
           \<longleftrightarrow> messageID \<notin> set (map m_id (messages d))))
   \<and> (\<forall>e. getMessageContext lib (Inr d) messageID b a = Inl e \<and> e \<noteq> MessageNotFound messageID
          \<longrightarrow> (\<exists>s. e = TimeParseError s))"
proof (intro conjI impI allI)
  show 1: "getMessageContext lib (Inr d) messageID b a = Inl (MessageNotFound messageID)
      \<longleftrightarrow> \<not> (\<exists>m \<in> set (messages d). \<exists>c \<in> set (chats d).
                m_id m = messageID \<and> m_chat_jid m = c_jid c)"
    unfolding getMessageContext_not_found_join filter_empty_conv set_messages_join_chats
    by auto
  show "getMessageContext lib (Inr d) messageID b a = Inl (MessageNotFound messageID)
           \<longleftrightarrow> messageID \<notin> set (map m_id (messages d))" if "chats_exist d"
    using that unfolding 1 chats_exist_def list_all_iff by auto
  show "\<exists>s. e = TimeParseError s"
    if "getMessageContext lib (Inr d) messageID b a = Inl e \<and> e \<noteq> MessageNotFound messageID"
    for e
    using that unfolding getMessageContext_def
    by (auto split: option.splits sum.splits dest: scanRows_error simp: scanMessage_def)
qed

theorem getMessageContext_not_found_witness:
  "chats_exist threeStore
   \<and> getMessageContext utcLib (Inr threeStore) ''Z9'' 5 5 = Inl (MessageNotFound ''Z9'')
   \<and> getMessageContext utcLib (Inr threeStore) ''A2'' 5 5 \<noteq> Inl (MessageNotFound ''A2'')"
proof -
  have h: "chats_exist threeStore"
    by (simp add: chats_exist_def example_defs)
  have "''Z9'' \<notin> set (map m_id (messages threeStore))"
       "\<not> ''A2'' \<notin> set (map m_id (messages threeStore))"
    by (simp_all add: example_defs)
  with h getMessageContext_not_found_iff [of utcLib threeStore "''Z9''" 5 5]
    getMessageContext_not_found_iff [of utcLib threeStore "''A2''" 5 5]
  show ?thesis by blast
qed

subsection \<open>C8: formatting without chat information\<close>

text \<open>
  C8 as stated (the output never contains "Chat:", whatever the message holds) fails:
  the fields of the message are copied into the line, so a text that contains "Chat:" puts
  it there.
\<close>

theorem formatMessage_chat_text_counterexample:
  "formatMessage utcLib (Inl ConnectionError) chatTextMessage False
     = ''[2024-01-01 10:00:05] From: Me: Chat: hi'' @ [CHR 0x0A]
   \<and> contains (formatMessage utcLib (Inl ConnectionError) chatTextMessage False) ''Chat:''"
  by (simp add: example_defs formatMessage_def)

text \<open>
  C8, amended: with \<open>showChatInfo = false\<close> the chat-info segment is never emitted: the
  line does not depend on the chat name, and it contains "Chat:" exactly when one of
  the rendered fields supplies it, that is, when the rendered timestamp, the displayed
  sender name, the content or (when a media tag is present) the media type, the message
  identifier or the chat identifier contains "Chat:", or the displayed sender name ends
  with "Chat" (it is followed by a colon).
\<close>

theorem formatMessage_without_chat_info:
  "(contains (formatMessage lib st m False) ''Chat:'' \<longleftrightarrow>
      contains (formatTime lib (Timestamp m)) ''Chat:''
    \<or> (\<not> IsFromMe m \<and> (contains (getSenderName st (Sender m)) ''Chat:''
                          \<or> hasSuffix (getSenderName st (Sender m)) ''Chat''))
    \<or> (case MediaType m of
          None \<Rightarrow> False
        | Some mediaType \<Rightarrow>
            mediaType \<noteq> [] \<and> (contains mediaType ''Chat:'' \<or> contains (ID m) ''Chat:''
                                  \<or> contains (ChatJID m) ''Chat:''))
    \<or> contains (Content m) ''Chat:'')
   \<and> formatMessage lib st m False = formatMessage lib st (m\<lparr>ChatName := None\<rparr>) False"
proof
  have sender: "contains (getSenderName st (Sender m) @ '':'') ''Chat:'' \<longleftrightarrow>
      contains (getSenderName st (Sender m)) ''Chat:''
      \<or> hasSuffix (getSenderName st (Sender m)) ''Chat''"
    by (rule contains_colon_Chat)
  show "contains (formatMessage lib st m False) ''Chat:'' \<longleftrightarrow>
      contains (formatTime lib (Timestamp m)) ''Chat:''
    \<or> (\<not> IsFromMe m \<and> (contains (getSenderName st (Sender m)) ''Chat:''
                          \<or> hasSuffix (getSenderName st (Sender m)) ''Chat''))
    \<or> (case MediaType m of
          None \<Rightarrow> False
        | Some mediaType \<Rightarrow>
            mediaType \<noteq> [] \<and> (contains mediaType ''Chat:'' \<or> contains (ID m) ''Chat:''
                                  \<or> contains (ChatJID m) ''Chat:''))
    \<or> contains (Content m) ''Chat:''"
    unfolding sender [symmetric] formatMessage_def Let_def
    by (simp add: contains_sep contains_sep2 split: option.split)
  show "formatMessage lib st m False = formatMessage lib st (m\<lparr>ChatName := None\<rparr>) False"
    by (simp add: formatMessage_def split: option.split)
qed

theorem formatMessage_without_chat_info_witness:
  "\<not> contains (formatMessage utcLib (Inr threeStore)
        (aliceMessage ''A1'' (2024, 1, 1, 10, 0, 1) ''one'') False) ''Chat:''"
proof -
  let ?m = "aliceMessage ''A1'' (2024, 1, 1, 10, 0, 1) ''one''"
  have "\<not> (contains (formatTime utcLib (Timestamp ?m)) ''Chat:''
    \<or> (\<not> IsFromMe ?m \<and> (contains (getSenderName (Inr threeStore) (Sender ?m)) ''Chat:''
                          \<or> hasSuffix (getSenderName (Inr threeStore) (Sender ?m)) ''Chat''))
    \<or> (case MediaType ?m of
          None \<Rightarrow> False
        | Some mediaType \<Rightarrow>
            mediaType \<noteq> [] \<and> (contains mediaType ''Chat:'' \<or> contains (ID ?m) ''Chat:''
                                  \<or> contains (ChatJID ?m) ''Chat:''))
    \<or> contains (Content ?m) ''Chat:'')"
    by (simp add: example_defs getSenderName_def scanName_def phonePart_def splitAtFirst_def
          hasSuffix_def)
  with formatMessage_without_chat_info [of utcLib "Inr threeStore" ?m]
  show ?thesis by blast
qed

subsection \<open>C9: the sender resolver\<close>

text \<open>
  C9: the resolver never fails, and it returns the sender unchanged on a store error and
  whenever no chat matches, that is, when no chat with a non-empty name has the sender as
  its identifier or has an identifier that contains the sender's local part. The program
  means the second lookup to be that search (its comment reads "try looking for the number
  within JIDs"), but it pastes the local part into the LIKE pattern without escaping it, so
  an underscore or a percent sign in the local part is a wildcard. For the sender
  \<open>1_3@s.whatsapp.net\<close> and a store whose only chat is \<open>123@s.whatsapp.net\<close>, named Bob,
  no chat has the sender as its identifier and no identifier contains the local part
  \<open>1_3\<close> (in any case of the letters); the resolver must return the sender and answers
  "Bob".
\<close>

theorem getSenderName_wildcard_in_local_part:
  "chats resolverStore = [bobChat]
   \<and> c_jid bobChat = ''123@s.whatsapp.net'' \<and> c_name bobChat = Some ''Bob''
   \<and> c_jid bobChat \<noteq> ''1_3@s.whatsapp.net''
   \<and> phonePart ''1_3@s.whatsapp.net'' = ''1_3''
   \<and> \<not> contains (sql_lower (c_jid bobChat)) (sql_lower (phonePart ''1_3@s.whatsapp.net''))
   \<and> getSenderName (Inr resolverStore) ''1_3@s.whatsapp.net'' = ''Bob''
   \<and> ''Bob'' \<noteq> ''1_3@s.whatsapp.net''"
  by (simp add: resolverStore_def bobChat_def getSenderName_def phonePart_def splitAtFirst_def
        scanName_def lower_ascii_def like_defs)

text \<open>
  The other parts of C9 hold of the program: there is no failing branch, a store that
  cannot be opened gives the sender back, and so does a store in which every chat that the
  two lookups can select (the identifier equals the sender, or matches the LIKE pattern)
  has no name or an empty one.
\<close>

lemma getSenderName_store_error: "getSenderName (Inl e) senderJID = senderJID"
  by (simp add: getSenderName_def)

lemma getSenderName_no_named_match:
  assumes "\<forall>c \<in> set (chats d).
             c_jid c = senderJID \<or> sql_like (''%'' @ phonePart senderJID @ ''%'') (c_jid c)
               \<longrightarrow> unnamed c"
  shows "getSenderName (Inr d) senderJID = senderJID"
proof -
  from assms have
    "\<forall>c \<in> set (chats d). c_jid c = senderJID \<longrightarrow> c_name c = None \<or> c_name c = Some []"
    "\<forall>c \<in> set (chats d). sql_like (''%'' @ phonePart senderJID @ ''%'') (c_jid c)
        \<longrightarrow> c_name c = None \<or> c_name c = Some []"
    by (auto simp: unnamed_def)
  from this [THEN scanName_queryRow_filter] show ?thesis
    by (auto simp: getSenderName_def Let_def)
qed

subsection \<open>C2: the order of the context window\<close>

text \<open>
  C2: the context of a message is the target with the messages before and after it, such
  that before, then the target, then after is in ascending chronological order. The
  program selects the rows before the target with \<open>ORDER BY messages.timestamp DESC\<close>
  (this is what makes \<open>LIMIT\<close> keep the most recent ones) and appends them to \<open>Before\<close>
  in that order; it never reverses them, while the rows after the target are selected and
  kept in ascending order, and \<open>listMessages\<close> prints \<open>Before\<close>, the target and
  \<open>After\<close> one after the other. So with two or more messages before the target the
  window is not chronological: for the last of three messages of a chat, one second
  apart, with two messages of context before it, \<open>Before\<close> is the second message followed
  by the first.
\<close>

theorem getMessageContext_before_newest_first:
  "getMessageContext utcLib (Inr threeStore) ''A3'' 2 0
     = Inr \<lparr>Message = aliceMessage ''A3'' (2024, 1, 1, 10, 0, 3) ''three'',
            Before = [aliceMessage ''A2'' (2024, 1, 1, 10, 0, 2) ''two'',
                      aliceMessage ''A1'' (2024, 1, 1, 10, 0, 1) ''one''],
            After = []\<rparr>
   \<and> \<not> sorted (map Timestamp
          ([aliceMessage ''A2'' (2024, 1, 1, 10, 0, 2) ''two'',
            aliceMessage ''A1'' (2024, 1, 1, 10, 0, 1) ''one'']
           @ [aliceMessage ''A3'' (2024, 1, 1, 10, 0, 3) ''three''] @ []))"
  by (simp add: example_defs model_defs queryRow_def)

subsection \<open>C7: the chats of a contact\<close>

text \<open>
  C7: \<open>getContactChats\<close> returns each chat of the contact once, and the chat whose
  identifier is the contact's belongs to the result. The program selects
  \<open>DISTINCT\<close> over six columns, three of which (\<open>m.content\<close>, \<open>m.sender\<close>,
  \<open>m.is_from_me\<close>, named \<open>last_message\<close>, \<open>last_sender\<close>, \<open>last_is_from_me\<close>) come from
  \<open>JOIN messages m ON c.jid = m.chat_jid\<close>, which pairs the chat with every one of its
  messages and not with its last one. So a chat is returned once for each of its selected
  messages that differ in these columns, and a chat without messages is never returned.
  For Alice's chat with its three messages the result holds the chat three times; for
  Bob's chat, which has no message, the result is empty although the chat's identifier is
  the one asked for.
\<close>

theorem getContactChats_repeats_chat:
  "chats threeStore = [aliceChat]
   \<and> getContactChats utcLib (Inr threeStore) ''111@s.whatsapp.net'' 20 0
       = Inr [aliceView ''one'', aliceView ''two'', aliceView ''three'']
   \<and> JID (aliceView ''one'') = JID (aliceView ''two'')
   \<and> chats resolverStore = [bobChat] \<and> c_jid bobChat = ''123@s.whatsapp.net''
   \<and> getContactChats utcLib (Inr resolverStore) ''123@s.whatsapp.net'' 20 0 = Inr []"
  by (simp add: example_defs getContactChats_def chats_join_messages_def
        selectChat_def scanChat_def sql_limit_offset_def sql_limit_def wrap64_def
        order_desc_def digitsVal.simps)

subsection \<open>C10: contact search\<close>

text \<open>
  C10: every contact that \<open>searchContacts\<close> returns has a name or an identifier that
  contains the query, up to the case of the letters (and is no group, and there are at
  most 50 of them, ordered by name and identifier). The program searches with
  \<open>LIKE\<close> and the pattern \<open>"%" + query + "%"\<close>, and does not escape the query, so an
  underscore or a percent sign in the query is a wildcard. For the query \<open>1_3\<close> and a
  store whose only chat is \<open>123@s.whatsapp.net\<close>, named Bob, neither the name nor the
  identifier contains the query, and the chat is returned.
\<close>

theorem searchContacts_wildcard_in_query:
  "chats resolverStore = [bobChat]
   \<and> c_jid bobChat = ''123@s.whatsapp.net'' \<and> c_name bobChat = Some ''Bob''
   \<and> \<not> contains (sql_lower ''Bob'') (sql_lower ''1_3'')
   \<and> \<not> contains (sql_lower ''123@s.whatsapp.net'') (sql_lower ''1_3'')
   \<and> searchContacts (Inr resolverStore) ''1_3''
       = Inr [\<lparr>PhoneNumber = ''123'', ContactName = Some ''Bob'',
               ContactJID = ''123@s.whatsapp.net''\<rparr>]"
  by (simp add: resolverStore_def bobChat_def searchContacts_def contactMatches_def
        scanContact_def splitAtFirst_def sql_limit_def order_asc_def lower_ascii_def like_defs)

end
